theory Spec2Isabelle
  imports Complex_Main
begin

section \<open>Values, responses and errors\<close>

text \<open>
  The handlers of \<^verbatim>\<open>api/anubis/views/public/ide.py\<close> exchange Python dictionaries with
  their callers. A dictionary is an association list read with \<^const>\<open>map_of\<close> (the first
  binding of a key is the one found), and the values that occur are the Python scalars and
  nested dictionaries.
\<close>

datatype pyval =
    PyNone
  | PyBool bool
  | PyInt int
  | PyStr string
  | PyDict "(string \<times> pyval) list"

type_synonym pydict = "(string \<times> pyval) list"

text \<open>\<^verbatim>\<open>d.get(key, default)\<close> of a dictionary, and of the query arguments of a request.\<close>

definition dict_get :: "('k \<times> 'v) list \<Rightarrow> 'k \<Rightarrow> 'v \<Rightarrow> 'v" where
  "dict_get d key dflt = (case map_of d key of Some v \<Rightarrow> v | None \<Rightarrow> dflt)"

text \<open>
  What a handler can raise: the assertion failure of \<^verbatim>\<open>req_assert\<close>, and the Python
  exceptions its own expressions can run into (a key missing from a dictionary, an operand
  of the wrong type, a date beyond the range of \<^verbatim>\<open>datetime\<close>).
\<close>

datatype error = AssertError string | KeyError string | TypeError | OverflowError

text \<open>
  Modelled from the spec: \<^verbatim>\<open>success_response\<close> and \<^verbatim>\<open>error_response\<close>
  (\<^verbatim>\<open>anubis.utils.http\<close>) are not part of the source slice. A handler that returns does so
  with one of the two; the first carries a dictionary, the second a message. Nothing more is
  assumed of them than that they keep their argument and differ from each other.
\<close>

datatype response = success_response pydict | error_response string

text \<open>A handler either raises (\<open>Inl\<close>) or returns a response (\<open>Inr\<close>).\<close>

type_synonym result = "error + response"

text \<open>
  Modelled from the spec: \<^verbatim>\<open>req_assert\<close> (\<^verbatim>\<open>anubis.utils.data\<close>) is not part of the source
  slice. A failed precondition is a request-level assertion failure carrying the message;
  \<open>None\<close> means that the handler goes on.
\<close>

definition req_assert :: "bool \<Rightarrow> string \<Rightarrow> error option" where
  "req_assert expression message = (if expression then None else Some (AssertError message))"

section \<open>Time\<close>

text \<open>
  A \<^verbatim>\<open>datetime\<close> lies between \<^verbatim>\<open>datetime.min\<close>, the first instant of year 1, and
  \<^verbatim>\<open>datetime.max\<close>, the last microsecond of year 9999, which is 3652059 days later. It is
  the number of microseconds since \<^verbatim>\<open>datetime.min\<close>.
\<close>

definition datetime_range :: int where
  "datetime_range = 3652059 * 86400 * 1000000"

typedef datetime = "{0 ..< datetime_range}"
  morphisms microseconds datetime_at
  by (rule exI [of _ 0]) (simp add: datetime_range_def)

text \<open>
  A \<^verbatim>\<open>timedelta\<close> is a number of microseconds. The two that the handlers build,
  \<^verbatim>\<open>timedelta(days=3 * 7)\<close> and the difference of two datetimes, are far inside the
  range of the type, so that building them never fails.
\<close>

type_synonym timedelta = int

definition timedelta_days :: "int \<Rightarrow> timedelta" where
  "timedelta_days days = days * 86400 * 1000000"

text \<open>
  \<^verbatim>\<open>datetime + timedelta\<close> raises \<^verbatim>\<open>OverflowError\<close> when the sum leaves the range;
  \<^verbatim>\<open>datetime - datetime\<close> is a \<^verbatim>\<open>timedelta\<close>.
\<close>

definition datetime_add :: "datetime \<Rightarrow> timedelta \<Rightarrow> error + datetime" where
  "datetime_add t delta =
     (let sum = microseconds t + delta
      in if 0 \<le> sum \<and> sum < datetime_range then Inr (datetime_at sum)
         else Inl OverflowError)"

definition datetime_sub :: "datetime \<Rightarrow> datetime \<Rightarrow> timedelta" where
  "datetime_sub t t' = microseconds t - microseconds t'"

subsection \<open>Seconds as a float\<close>

text \<open>
  \<^verbatim>\<open>timedelta.total_seconds()\<close> is the true division of the microseconds by \<open>10\<^sup>6\<close>, and
  the true division of two Python integers is the double nearest to their quotient, ties
  going to the even mantissa. The double is given here as the rational number it denotes.
  \<^verbatim>\<open>int.bit_length()\<close> locates the binary exponent \<open>e\<close> of a positive quotient,
  \<open>2\<^sup>e \<le> q < 2\<^sup>e\<^sup>+\<^sup>1\<close>; the 53-bit mantissa is the quotient scaled by \<open>2\<^sup>5\<^sup>2\<^sup>-\<^sup>e\<close> and rounded.
  The difference of two datetimes is below \<open>2\<^sup>5\<^sup>9\<close> microseconds, so that its quotient by
  \<open>10\<^sup>6\<close> is zero or in the range of the normal doubles, where this is all there is to
  rounding.
\<close>

fun bit_length :: "nat \<Rightarrow> nat" where
  "bit_length n = (if n = 0 then 0 else Suc (bit_length (n div 2)))"

declare bit_length.simps [simp del]

definition round_half_even :: "rat \<Rightarrow> int" where
  "round_half_even x =
     (let f = \<lfloor>x\<rfloor>; r = x - of_int f
      in if r < 1 / 2 then f
         else if 1 / 2 < r then f + 1
         else if even f then f else f + 1)"

definition binary_exponent :: "nat \<Rightarrow> nat \<Rightarrow> int" where
  "binary_exponent n d =
     (let k = int (bit_length n) - int (bit_length d)
      in if (2::rat) powi k \<le> of_nat n / of_nat d then k else k - 1)"

definition float_quotient :: "nat \<Rightarrow> nat \<Rightarrow> rat" where
  "float_quotient n d =
     (let q = of_nat n / of_nat d;
          s = binary_exponent n d - 52;
          m = round_half_even (q / 2 powi s)
      in of_int m * 2 powi s)"

definition true_divide :: "int \<Rightarrow> int \<Rightarrow> rat" where
  "true_divide n d =
     (if n = 0 then 0
      else if 0 < n then float_quotient (nat n) (nat d)
      else - float_quotient (nat (- n)) (nat d))"

definition total_seconds :: "timedelta \<Rightarrow> rat" where
  "total_seconds delta = true_divide delta 1000000"

section \<open>The data model\<close>

record Assignment =
  id' :: string
  course_id :: string
  ide_enabled :: bool
  release_date :: datetime
  due_date :: datetime
  github_repo_required :: bool
  theia_options :: pydict
  theia_image_id :: string

record AssignmentRepo =
  owner_id :: string
  assignment_id :: string
  repo_url :: string

text \<open>
  A row of the session table: the configuration that \<^verbatim>\<open>initialize_ide\<close> is called with,
  and the lifecycle columns that the handlers read and write.
\<close>

record TheiaSession =
  id' :: string
  owner_id :: string
  assignment_id :: string
  course_id :: string
  image_id :: string
  repo_url :: string
  playground :: bool
  network_locked :: bool
  network_policy :: pyval
  persistent_storage :: bool
  autosave :: bool
  resources :: pyval
  privileged :: bool
  admin :: bool
  credentials :: bool
  active :: bool
  state :: string
  created :: datetime
  ended :: "datetime option"

text \<open>
  The stored state that the handlers act on: the session and repository tables in storage
  order, the two job queues of the orchestration backend, the memoisation cache of
  \<^verbatim>\<open>theia_poll_ide\<close> (key, cached value, expiry instant in microseconds) and the log of
  the status queries that reached the backend.
\<close>

record world =
  sessions :: "TheiaSession list"
  repos :: "AssignmentRepo list"
  ide_initialize_queue :: "string list"
  ide_stop_queue :: "string list"
  poll_cache :: "((string \<times> string) \<times> (pydict option \<times> int)) list"
  poll_queries :: "(string \<times> string) list"

text \<open>
  What a request brings with it and what the collaborators outside the source slice answer:
  the authenticated user, the query arguments, the reading of the clock, and the functions
  and constants that \<^verbatim>\<open>ide.py\<close> imports. They are parameters; no property below depends
  on a particular choice.
\<close>

record env =
  current_user_id :: string
  current_user_github_username :: "string option"
  request_args :: "(string \<times> string) list"
  now :: datetime
  is_course_admin :: "string \<Rightarrow> bool"
  get_config_int :: "string \<Rightarrow> int \<Rightarrow> int"
  assert_theia_sessions_enabled :: "error option"
  THEIA_DEFAULT_OPTIONS :: pydict
  data :: "TheiaSession \<Rightarrow> pydict"
  new_session_id :: string
  initial_state :: string
  poll_backend :: "world \<Rightarrow> string \<Rightarrow> string \<Rightarrow> pydict option"
  poll_timeout :: timedelta

section \<open>Session Initializer\<close>

text \<open>
  Modelled from the spec: \<^verbatim>\<open>initialize_ide\<close> (\<^verbatim>\<open>anubis.lms.theia\<close>) is not part of the
  source slice. It builds the configuration snapshot from its arguments, persists one new
  session record owned by the caller with \<open>active = true\<close> and the initial state, and
  submits one creation request to the orchestration backend. The arguments come in the order
  of the call in \<^verbatim>\<open>public_ide_initialize\<close>.
\<close>

definition initialize_ide ::
  "env \<Rightarrow> string \<Rightarrow> string \<Rightarrow> string \<Rightarrow> string \<Rightarrow> bool \<Rightarrow> bool \<Rightarrow> pyval \<Rightarrow> bool \<Rightarrow> bool \<Rightarrow> pyval
    \<Rightarrow> bool \<Rightarrow> bool \<Rightarrow> bool \<Rightarrow> world \<Rightarrow> TheiaSession \<times> world" where
  "initialize_ide e image_id_arg assignment_id_arg course_id_arg repo_url_arg playground_arg
      network_locked_arg network_policy_arg persistent_storage_arg autosave_arg resources_arg
      privileged_arg admin_arg credentials_arg w =
    (let session = \<lparr>
           id' = new_session_id e,
           owner_id = current_user_id e,
           assignment_id = assignment_id_arg,
           course_id = course_id_arg,
           image_id = image_id_arg,
           repo_url = repo_url_arg,
           playground = playground_arg,
           network_locked = network_locked_arg,
           network_policy = network_policy_arg,
           persistent_storage = persistent_storage_arg,
           autosave = autosave_arg,
           resources = resources_arg,
           privileged = privileged_arg,
           admin = admin_arg,
           credentials = credentials_arg,
           active = True,
           state = initial_state e,
           created = now e,
           ended = None \<rparr>
     in (session,
         w\<lparr>sessions := sessions w @ [session],
           ide_initialize_queue := ide_initialize_queue w @ [id' session]\<rparr>))"

section \<open>Queries on the session table\<close>

text \<open>
  \<^verbatim>\<open>Query.first()\<close> gives the first row in storage order that passes the filter, or
  \<^verbatim>\<open>None\<close>. The join with the assignment table in the query of lines 44--52 keeps every
  row whose \<^verbatim>\<open>assignment_id\<close> is the id of the assignment at hand, which exists.
\<close>

definition active_session_query :: "env \<Rightarrow> Assignment \<Rightarrow> world \<Rightarrow> TheiaSession option" where
  "active_session_query e assignment w =
     find (\<lambda>s. owner_id s = current_user_id e
               \<and> assignment_id s = Assignment.id' assignment
               \<and> active s) (sessions w)"

text \<open>
  Lines 60--63: the caller's inactive sessions, newest \<^verbatim>\<open>created\<close> first, and the first of
  them. The sort is stable, so that rows created at the same instant stay in storage order.
\<close>

definition last_session_query :: "env \<Rightarrow> world \<Rightarrow> TheiaSession option" where
  "last_session_query e w =
     (case sort_key (\<lambda>s. - microseconds (created s))
             (filter (\<lambda>s. owner_id s = current_user_id e \<and> active s = False) (sessions w)) of
        [] \<Rightarrow> None
      | s # _ \<Rightarrow> Some s)"

definition repo_query :: "env \<Rightarrow> Assignment \<Rightarrow> world \<Rightarrow> AssignmentRepo option" where
  "repo_query e assignment w =
     find (\<lambda>r. AssignmentRepo.owner_id r = current_user_id e
               \<and> AssignmentRepo.assignment_id r = Assignment.id' assignment) (repos w)"

definition session_query :: "env \<Rightarrow> string \<Rightarrow> world \<Rightarrow> TheiaSession option" where
  "session_query e theia_session_id w =
     find (\<lambda>s. id' s = theia_session_id \<and> owner_id s = current_user_id e) (sessions w)"

section \<open>InitializeSession\<close>

text \<open>
  Lines 59--78 of \<^verbatim>\<open>public_ide_initialize\<close>, the volume cooldown: \<open>Some\<close> is what the
  handler leaves with, \<open>None\<close> lets it go on. Subtracting the \<^verbatim>\<open>ended\<close> column of a row
  where it is null from a \<^verbatim>\<open>datetime\<close> raises a \<^verbatim>\<open>TypeError\<close>.
\<close>

definition volume_cooldown :: "env \<Rightarrow> world \<Rightarrow> result option" where
  "volume_cooldown e w =
     (case last_session_query e w of
        None \<Rightarrow> None
      | Some last_session \<Rightarrow>
          if persistent_storage last_session then
            (case ended last_session of
               None \<Rightarrow> Some (Inl TypeError)
             | Some ended_at \<Rightarrow>
                 let seconds_passed = total_seconds (datetime_sub (now e) ended_at);
                     cooldown_seconds = get_config_int e ''THEIA_VOLUME_COOLDOWN_SECONDS'' 1
                 in if seconds_passed < of_int cooldown_seconds
                    then Some (Inr (success_response
                           [(''status'', PyStr (''Please wait a few more seconds. '' @
                                               ''Your last IDEs home volume is still unmounting.'')),
                            (''variant'', PyStr ''warning'')]))
                    else None)
          else None)"

text \<open>
  Lines 104--127: the repository url, or the assertion failure that ends the request.
\<close>

definition resolve_repo_url :: "env \<Rightarrow> Assignment \<Rightarrow> world \<Rightarrow> error + string" where
  "resolve_repo_url e assignment w =
     (if github_repo_required assignment then
        (case req_assert (current_user_github_username e \<noteq> None)
                ''Please link your github account github account on profile page.'' of
           Some err \<Rightarrow> Inl err
         | None \<Rightarrow>
             (case req_assert (repo_query e assignment w \<noteq> None)
                     (''Anubis can not find your assignment repo. '' @
                      ''Please make sure your github username is set and is correct.'') of
                Some err \<Rightarrow> Inl err
              | None \<Rightarrow> Inr (AssignmentRepo.repo_url (the (repo_query e assignment w)))))
      else Inr [])"

text \<open>
  Lines 129--168: the options of the session and the call of \<^verbatim>\<open>initialize_ide\<close>. The
  default of the second \<^verbatim>\<open>options.get\<close> is the subscript
  \<^verbatim>\<open>THEIA_DEFAULT_OPTIONS['resources']\<close>, which Python evaluates before the call.
\<close>

definition create_session :: "env \<Rightarrow> Assignment \<Rightarrow> bool \<Rightarrow> string \<Rightarrow> world \<Rightarrow> result \<times> world" where
  "create_session e assignment is_admin repo_url_v w =
     (let options = theia_options assignment;
          autosave_v = (dict_get (request_args e) ''autosave'' ''true'' = ''true'');
          persistent_storage_v =
            (dict_get (request_args e) ''persistent_storage'' ''true'' = ''true'');
          network_policy_v = dict_get options ''network_policy'' (PyStr ''os-student'')
      in case map_of (THEIA_DEFAULT_OPTIONS e) ''resources'' of
           None \<Rightarrow> (Inl (KeyError ''resources''), w)
         | Some default_resources \<Rightarrow>
             let resources_v = dict_get options ''resources'' default_resources;
                 network_policy_v = (if is_admin then PyStr ''admin'' else network_policy_v);
                 (session, w') =
                   initialize_ide e (theia_image_id assignment) (Assignment.id' assignment)
                     (Assignment.course_id assignment) repo_url_v False (\<not> is_admin)
                     network_policy_v persistent_storage_v autosave_v resources_v False
                     is_admin is_admin w
             in (Inr (success_response
                       [(''active'', PyBool (active session)),
                        (''session'', PyDict (data e session)),
                        (''status'', PyStr ''Session created'')]), w'))"

text \<open>
  Lines 99--102, for a caller who is not a course admin: the sum is computed first and can
  leave the range of \<^verbatim>\<open>datetime\<close>; \<open>Some\<close> is what the handler leaves with, \<open>None\<close>
  lets it go on.
\<close>

definition grace_window :: "env \<Rightarrow> Assignment \<Rightarrow> result option" where
  "grace_window e assignment =
     (case datetime_add (due_date assignment) (timedelta_days (3 * 7)) of
        Inl err \<Rightarrow> Some (Inl err)
      | Inr deadline \<Rightarrow>
          if microseconds deadline \<le> microseconds (now e)
          then Some (Inr (error_response
                 ''Assignment due date passed over 3 weeks ago. IDEs are disabled.''))
          else None)"

text \<open>The handler of \<^verbatim>\<open>POST /public/ide/initialize/<id>\<close>, lines 32--168.\<close>

definition public_ide_initialize :: "env \<Rightarrow> Assignment \<Rightarrow> world \<Rightarrow> result \<times> world" where
  "public_ide_initialize e assignment w =
     (case req_assert (ide_enabled assignment) ''IDEs are not enabled for this assignment'' of
        Some err \<Rightarrow> (Inl err, w)
      | None \<Rightarrow>
     (case active_session_query e assignment w of
        Some active_session \<Rightarrow>
          (Inr (success_response
                 [(''active'', PyBool (active active_session)),
                  (''session'', PyDict (data e active_session))]), w)
      | None \<Rightarrow>
     (case volume_cooldown e w of
        Some r \<Rightarrow> (r, w)
      | None \<Rightarrow>
     (case assert_theia_sessions_enabled e of
        Some err \<Rightarrow> (Inl err, w)
      | None \<Rightarrow>
     (let is_admin = is_course_admin e (Assignment.course_id assignment) in
      case (if \<not> is_admin
            then req_assert (microseconds (release_date assignment) < microseconds (now e))
                   ''Assignment has not been released''
            else None) of
        Some err \<Rightarrow> (Inl err, w)
      | None \<Rightarrow>
          (case (if \<not> is_admin then grace_window e assignment else None) of
             Some r \<Rightarrow> (r, w)
           | None \<Rightarrow>
               (case resolve_repo_url e assignment w of
                  Inl err \<Rightarrow> (Inl err, w)
                | Inr repo_url_v \<Rightarrow> create_session e assignment is_admin repo_url_v w)))))))"

section \<open>Poll Cache\<close>

text \<open>
  Modelled from the spec: the cache of \<^verbatim>\<open>anubis.utils.cache\<close> and the memoised
  \<^verbatim>\<open>theia_poll_ide\<close> (\<^verbatim>\<open>anubis.lms.theia\<close>) are not part of the source slice. The cache
  is the explicit abstraction of the design notes, key to (value, expiry), with \<open>get\<close>,
  \<open>set_with_ttl\<close> and \<open>invalidate\<close>; an entry whose time to live has run out is a miss on
  the next read.
\<close>

definition cache_get :: "env \<Rightarrow> string \<times> string \<Rightarrow> world \<Rightarrow> pydict option option" where
  "cache_get e key w =
     (case map_of (poll_cache w) key of
        None \<Rightarrow> None
      | Some (v, expiry) \<Rightarrow> if microseconds (now e) < expiry then Some v else None)"

definition cache_invalidate :: "string \<times> string \<Rightarrow> world \<Rightarrow> world" where
  "cache_invalidate key w = w\<lparr>poll_cache := filter (\<lambda>entry. fst entry \<noteq> key) (poll_cache w)\<rparr>"

definition cache_set_with_ttl ::
  "env \<Rightarrow> string \<times> string \<Rightarrow> pydict option \<Rightarrow> world \<Rightarrow> world" where
  "cache_set_with_ttl e key v w =
     w\<lparr>poll_cache := (key, (v, microseconds (now e) + poll_timeout e))
                      # filter (\<lambda>entry. fst entry \<noteq> key) (poll_cache w)\<rparr>"

text \<open>
  Modelled from the spec: \<open>poll(session_id, user_id)\<close> wraps a backend status fetch with a
  short time-to-live memoisation keyed on \<open>(session_id, user_id)\<close>. A miss queries the
  backend, which the log \<^const>\<open>poll_queries\<close> records, and stores the answer.
\<close>

definition theia_poll_ide :: "env \<Rightarrow> string \<Rightarrow> string \<Rightarrow> world \<Rightarrow> pydict option \<times> world" where
  "theia_poll_ide e theia_session_id user_id w =
     (case cache_get e (theia_session_id, user_id) w of
        Some cached \<Rightarrow> (cached, w)
      | None \<Rightarrow>
          let fetched = poll_backend e w theia_session_id user_id;
              w' = w\<lparr>poll_queries := poll_queries w @ [(theia_session_id, user_id)]\<rparr>
          in (fetched, cache_set_with_ttl e (theia_session_id, user_id) fetched w'))"

text \<open>
  \<^verbatim>\<open>cache.delete_memoized(theia_poll_ide, theia_session_id, user_id)\<close>: the entry of exactly
  these arguments is dropped.
\<close>

definition cache_delete_memoized :: "string \<Rightarrow> string \<Rightarrow> world \<Rightarrow> world" where
  "cache_delete_memoized theia_session_id user_id w =
     cache_invalidate (theia_session_id, user_id) w"

section \<open>PollSession\<close>

text \<open>
  A dictionary cannot be hashed: testing it for membership in a set, or looking it up as a
  key, raises a \<^verbatim>\<open>TypeError\<close>.
\<close>

fun hashable :: "pyval \<Rightarrow> bool" where
  "hashable (PyDict _) = False"
| "hashable _ = True"

text \<open>The handler of \<^verbatim>\<open>/public/ide/poll/<theia_session_id>\<close>, lines 272--306.\<close>

definition public_ide_poll :: "env \<Rightarrow> string \<Rightarrow> world \<Rightarrow> result \<times> world" where
  "public_ide_poll e theia_session_id w =
     (let (session_data, w') = theia_poll_ide e theia_session_id (current_user_id e) w in
      case req_assert (session_data \<noteq> None) ''session does not exist'' of
        Some err \<Rightarrow> (Inl err, w')
      | None \<Rightarrow>
          (case map_of (the session_data) ''state'' of
             None \<Rightarrow> (Inl (KeyError ''state''), w')
           | Some session_state \<Rightarrow>
               if \<not> hashable session_state then (Inl TypeError, w')
               else
                 let loading =
                       (session_state \<notin> {PyStr ''Running'', PyStr ''Ended'', PyStr ''Failed''});
                     (status, variant) =
                       dict_get
                         [(PyStr ''Running'', (PyStr ''Session is now ready.'', PyStr ''success'')),
                          (PyStr ''Failed'',
                             (PyStr ''Session failed to start. Please try again.'', PyStr ''error''))]
                         session_state (PyNone, PyNone)
                 in (Inr (success_response
                           [(''loading'', PyBool loading),
                            (''session'', PyDict (the session_data)),
                            (''status'', status),
                            (''variant'', variant)]), w')))"

section \<open>StopSession\<close>

text \<open>
  The row that \<^verbatim>\<open>first()\<close> returned is the object whose attributes the handler assigns;
  the commit writes that row back and leaves every other row as it was.
\<close>

fun update_first :: "('a \<Rightarrow> bool) \<Rightarrow> ('a \<Rightarrow> 'a) \<Rightarrow> 'a list \<Rightarrow> 'a list" where
  "update_first P f [] = []"
| "update_first P f (x # xs) = (if P x then f x # xs else x # update_first P f xs)"

text \<open>
  Modelled from the spec: \<^verbatim>\<open>enqueue_ide_stop\<close> (\<^verbatim>\<open>anubis.utils.rpc\<close>) is not part of the
  source slice. It enqueues an asynchronous teardown job for the session.
\<close>

definition enqueue_ide_stop :: "string \<Rightarrow> world \<Rightarrow> world" where
  "enqueue_ide_stop theia_session_id w =
     w\<lparr>ide_stop_queue := ide_stop_queue w @ [theia_session_id]\<rparr>"

text \<open>The handler of \<^verbatim>\<open>/public/ide/stop/<theia_session_id>\<close>, lines 227--266.\<close>

definition public_ide_stop :: "env \<Rightarrow> string \<Rightarrow> world \<Rightarrow> result \<times> world" where
  "public_ide_stop e theia_session_id w =
     (let theia_session = session_query e theia_session_id w in
      case req_assert (theia_session \<noteq> None) ''session does not exist'' of
        Some err \<Rightarrow> (Inl err, w)
      | None \<Rightarrow>
          let w1 = w\<lparr>sessions :=
                      update_first
                        (\<lambda>s. id' s = theia_session_id \<and> owner_id s = current_user_id e)
                        (\<lambda>s. s\<lparr>active := False, ended := Some (now e), state := ''Ended''\<rparr>)
                        (sessions w)\<rparr>;
              w2 = enqueue_ide_stop (id' (the theia_session)) w1;
              w3 = cache_delete_memoized theia_session_id (current_user_id e) w2
          in (Inr (success_response
                    [(''status'', PyStr ''Session stopped.''),
                     (''variant'', PyStr ''warning'')]), w3))"

section \<open>Concrete requests\<close>

text \<open>
  A student \<open>u1\<close> and a course admin \<open>ta\<close> of course \<open>c1\<close>, at the instant
  \<open>5 \<times> 10\<^sup>1\<^sup>2\<close> (in microseconds since \<^verbatim>\<open>datetime.min\<close>). The cooldown keeps its default of one second, the
  session data shows id and state, and the backend answers a status query with the data of
  the caller's stored session.
\<close>

definition student_env :: env where
  "student_env = \<lparr>
     current_user_id = ''u1'',
     current_user_github_username = None,
     request_args = [],
     now = datetime_at 5000000000000,
     is_course_admin = (\<lambda>course. False),
     get_config_int = (\<lambda>key dflt. dflt),
     assert_theia_sessions_enabled = None,
     THEIA_DEFAULT_OPTIONS = [(''resources'', PyDict [(''cpu'', PyStr ''2'')])],
     data = (\<lambda>s. [(''id'', PyStr (id' s)), (''state'', PyStr (state s))]),
     new_session_id = ''s9'',
     initial_state = ''Initializing'',
     poll_backend = (\<lambda>w sid uid.
        map_option (\<lambda>s. [(''id'', PyStr (id' s)), (''state'', PyStr (state s))])
          (find (\<lambda>s. id' s = sid \<and> owner_id s = uid) (sessions w))),
     poll_timeout = 1000000 \<rparr>"

definition admin_env :: env where
  "admin_env = student_env\<lparr>current_user_id := ''ta'', is_course_admin := (\<lambda>course. course = ''c1'')\<rparr>"

text \<open>
  Assignment \<open>a1\<close> is released and due at \<open>4 \<times> 10\<^sup>1\<^sup>2\<close>, less than three weeks before the
  requests; \<open>overdue_assignment\<close> was due at \<open>10\<^sup>1\<^sup>2\<close>, more than three weeks before.
\<close>

definition assignment1 :: Assignment where
  "assignment1 = \<lparr>
     Assignment.id' = ''a1'',
     course_id = ''c1'',
     ide_enabled = True,
     release_date = datetime_at 0,
     due_date = datetime_at 4000000000000,
     github_repo_required = False,
     theia_options = [(''network_policy'', PyStr ''os-student'')],
     theia_image_id = ''img1'' \<rparr>"

definition overdue_assignment :: Assignment where
  "overdue_assignment = assignment1\<lparr>due_date := datetime_at 1000000000000\<rparr>"

text \<open>
  Two rows of the session table for \<open>u1\<close>: a running session \<open>s1\<close> for \<open>a1\<close>, and a
  session \<open>s0\<close> for another assignment that had persistent storage and was stopped half a
  second before the requests.
\<close>

definition running_session :: TheiaSession where
  "running_session = \<lparr>
     id' = ''s1'', owner_id = ''u1'', assignment_id = ''a1'', course_id = ''c1'',
     image_id = ''img1'', repo_url = [], playground = False, network_locked = True,
     network_policy = PyStr ''os-student'', persistent_storage = True, autosave = True,
     resources = PyDict [(''cpu'', PyStr ''2'')], privileged = False, admin = False,
     credentials = False, active = True, state = ''Running'',
     created = datetime_at 4999000000000, ended = None \<rparr>"

definition stopped_session :: TheiaSession where
  "stopped_session = running_session\<lparr>
     id' := ''s0'', assignment_id := ''a0'', active := False, state := ''Ended'',
     created := datetime_at 4990000000000, ended := Some (datetime_at 4999999500000) \<rparr>"

definition empty_world :: world where
  "empty_world = \<lparr> sessions = [], repos = [], ide_initialize_queue = [],
     ide_stop_queue = [], poll_cache = [], poll_queries = [] \<rparr>"

definition busy_world :: world where
  "busy_world = empty_world\<lparr>sessions := [stopped_session, running_session]\<rparr>"

definition cooling_world :: world where
  "cooling_world = empty_world\<lparr>sessions := [stopped_session]\<rparr>"

text \<open>
  The world \<open>busy_world\<close> after \<open>u1\<close> polled \<open>s1\<close>: the answer ``Running'' is cached
  until \<open>0.9\<close> seconds after the requests.
\<close>

definition cached_world :: world where
  "cached_world = busy_world\<lparr>poll_cache :=
     [((''s1'', ''u1''),
       (Some [(''id'', PyStr ''s1''), (''state'', PyStr ''Running'')], 5000000900000))]\<rparr>"

section \<open>Rounding to the nearest double\<close>



















lemma microseconds_range:
  "0 \<le> microseconds t \<and> microseconds t < datetime_range"
  using microseconds [of t] by simp

lemma microseconds_datetime_at:
  assumes "0 \<le> t" and "t < datetime_range"
  shows "microseconds (datetime_at t) = t"
  using assms by (simp add: datetime_at_inverse)

lemma datetime_add_in_range:
  assumes "0 \<le> delta" and "microseconds t + delta < datetime_range"
  shows "\<exists>sum. datetime_add t delta = Inr sum \<and> microseconds sum = microseconds t + delta"
  using assms microseconds_range [of t]
  by (simp add: datetime_add_def Let_def microseconds_datetime_at)

lemma datetime_add_overflow:
  assumes "datetime_range \<le> microseconds t + delta"
  shows "datetime_add t delta = Inl OverflowError"
  using assms by (simp add: datetime_add_def Let_def)

lemmas datetime_evals =
  datetime_at_inverse datetime_at_inject datetime_range_def datetime_add_def datetime_sub_def
  timedelta_days_def

section \<open>Supporting lemmas\<close>

lemma active_session_query_iff:
  "(active_session_query e assignment w \<noteq> None) =
     (\<exists>s\<in>set (sessions w). owner_id s = current_user_id e
         \<and> assignment_id s = Assignment.id' assignment \<and> active s)"
  by (auto simp: active_session_query_def find_None_iff)

lemma active_session_query_Some:
  assumes "active_session_query e assignment w = Some s"
  shows "s \<in> set (sessions w) \<and> owner_id s = current_user_id e
         \<and> assignment_id s = Assignment.id' assignment \<and> active s"
  using assms by (auto simp: active_session_query_def find_Some_iff)

lemma last_session_query_newest:
  assumes "last_session_query e w = Some s"
  shows "s \<in> set (sessions w) \<and> owner_id s = current_user_id e \<and> \<not> active s
         \<and> (\<forall>s'\<in>set (sessions w). owner_id s' = current_user_id e \<and> \<not> active s'
               \<longrightarrow> microseconds (created s') \<le> microseconds (created s))"
proof -
  let ?rows = "filter (\<lambda>s. owner_id s = current_user_id e \<and> active s = False) (sessions w)"
  let ?sorted = "sort_key (\<lambda>s. - microseconds (created s)) ?rows"
  from assms obtain rest where srt: "?sorted = s # rest"
    by (auto simp: last_session_query_def split: list.splits)
  have "s \<in> set ?sorted" using srt by simp
  then have mem: "s \<in> set ?rows" by simp
  have "sorted (map (\<lambda>s. - microseconds (created s)) ?sorted)" by (rule sorted_sort_key)
  then have le: "\<forall>s'\<in>set ?sorted. - microseconds (created s) \<le> - microseconds (created s')"
    unfolding srt by auto
  have "\<forall>s'\<in>set ?rows. microseconds (created s') \<le> microseconds (created s)"
  proof
    fix s' assume "s' \<in> set ?rows"
    then have "s' \<in> set ?sorted" by simp
    with le show "microseconds (created s') \<le> microseconds (created s)" by auto
  qed
  with mem show ?thesis by auto
qed

lemma initialize_active:
  assumes "ide_enabled assignment" and "active_session_query e assignment w = Some s"
  shows "public_ide_initialize e assignment w =
           (Inr (success_response [(''active'', PyBool True), (''session'', PyDict (data e s))]), w)"
  using assms active_session_query_Some [OF assms(2)]
  by (simp add: public_ide_initialize_def req_assert_def)

lemma initialize_disabled:
  assumes "\<not> ide_enabled assignment"
  shows "public_ide_initialize e assignment w =
           (Inl (AssertError ''IDEs are not enabled for this assignment''), w)"
  using assms by (simp add: public_ide_initialize_def req_assert_def)


lemma create_session_result:
  assumes "map_of (THEIA_DEFAULT_OPTIONS e) ''resources'' = Some r"
  shows "\<exists>s. create_session e assignment is_admin url w =
            (Inr (success_response [(''active'', PyBool True), (''session'', PyDict (data e s)),
                    (''status'', PyStr ''Session created'')]),
             w\<lparr>sessions := sessions w @ [s],
               ide_initialize_queue := ide_initialize_queue w @ [id' s]\<rparr>)
          \<and> owner_id s = current_user_id e
          \<and> assignment_id s = Assignment.id' assignment
          \<and> active s
          \<and> network_policy s = (if is_admin then PyStr ''admin''
               else dict_get (theia_options assignment) ''network_policy'' (PyStr ''os-student''))
          \<and> autosave s = (dict_get (request_args e) ''autosave'' ''true'' = ''true'')
          \<and> persistent_storage s = (dict_get (request_args e) ''persistent_storage'' ''true'' = ''true'')"
proof -
  let ?s = "fst (initialize_ide e (theia_image_id assignment) (Assignment.id' assignment)
                   (Assignment.course_id assignment) url False (\<not> is_admin)
                   (if is_admin then PyStr ''admin''
                    else dict_get (theia_options assignment) ''network_policy'' (PyStr ''os-student''))
                   (dict_get (request_args e) ''persistent_storage'' ''true'' = ''true'')
                   (dict_get (request_args e) ''autosave'' ''true'' = ''true'')
                   (dict_get (theia_options assignment) ''resources'' r)
                   False is_admin is_admin w)"
  show ?thesis
    using assms by (intro exI [of _ ?s]) (simp add: create_session_def initialize_ide_def Let_def)
qed

lemma initialize_world:
  "snd (public_ide_initialize e assignment w) = w \<or>
   (\<exists>url. resolve_repo_url e assignment w = Inr url \<and> assert_theia_sessions_enabled e = None
      \<and> public_ide_initialize e assignment w =
        create_session e assignment (is_course_admin e (Assignment.course_id assignment)) url w)"
  by (auto simp: public_ide_initialize_def Let_def split: option.splits sum.splits)


lemma initialize_created:
  assumes "sessions (snd (public_ide_initialize e assignment w)) = sessions w @ [s]"
  shows "network_policy s =
           (if is_course_admin e (Assignment.course_id assignment) then PyStr ''admin''
            else dict_get (theia_options assignment) ''network_policy'' (PyStr ''os-student''))
       \<and> autosave s = (dict_get (request_args e) ''autosave'' ''true'' = ''true'')
       \<and> persistent_storage s =
           (dict_get (request_args e) ''persistent_storage'' ''true'' = ''true'')
       \<and> owner_id s = current_user_id e
       \<and> assignment_id s = Assignment.id' assignment
       \<and> active s"
proof -
  from assms have changed: "snd (public_ide_initialize e assignment w) \<noteq> w" by auto
  with initialize_world [of e assignment w] obtain url where
    eq: "public_ide_initialize e assignment w =
           create_session e assignment (is_course_admin e (Assignment.course_id assignment)) url w"
    by blast
  show ?thesis
  proof (cases "map_of (THEIA_DEFAULT_OPTIONS e) ''resources''")
    case None
    then have "snd (public_ide_initialize e assignment w) = w"
      by (simp add: eq create_session_def)
    with changed show ?thesis by simp
  next
    case (Some r)
    from create_session_result [OF Some] obtain s' where
      "snd (public_ide_initialize e assignment w) = w\<lparr>sessions := sessions w @ [s'],
               ide_initialize_queue := ide_initialize_queue w @ [id' s']\<rparr>"
      and props: "network_policy s' =
           (if is_course_admin e (Assignment.course_id assignment) then PyStr ''admin''
            else dict_get (theia_options assignment) ''network_policy'' (PyStr ''os-student''))"
        "autosave s' = (dict_get (request_args e) ''autosave'' ''true'' = ''true'')"
        "persistent_storage s' =
           (dict_get (request_args e) ''persistent_storage'' ''true'' = ''true'')"
        "owner_id s' = current_user_id e"
        "assignment_id s' = Assignment.id' assignment"
        "active s'"
      unfolding eq by (metis snd_conv)
    with assms have "s' = s" by simp
    with props show ?thesis by simp
  qed
qed

lemma initialize_admin_dates:
  assumes "is_course_admin e (Assignment.course_id assignment)"
  shows "public_ide_initialize e (assignment\<lparr>release_date := r, due_date := d\<rparr>) w =
         public_ide_initialize e assignment w"
proof -
  let ?a = "assignment\<lparr>release_date := r, due_date := d\<rparr>"
  have q: "active_session_query e ?a w = active_session_query e assignment w"
    by (simp add: active_session_query_def)
  have rq: "repo_query e ?a w = repo_query e assignment w"
    by (simp add: repo_query_def)
  have u: "resolve_repo_url e ?a w = resolve_repo_url e assignment w"
    unfolding resolve_repo_url_def rq by simp
  have c: "create_session e ?a True url w = create_session e assignment True url w" for url
    by (simp add: create_session_def Let_def split: option.splits)
  show ?thesis
    using assms
    by (simp add: public_ide_initialize_def q u c Let_def
          cong: option.case_cong sum.case_cong)
qed


lemmas concrete_defs =
  student_env_def admin_env_def assignment1_def overdue_assignment_def running_session_def
  stopped_session_def empty_world_def busy_world_def cooling_world_def

lemmas initialize_defs =
  public_ide_initialize_def req_assert_def active_session_query_def last_session_query_def
  volume_cooldown_def resolve_repo_url_def repo_query_def create_session_def initialize_ide_def
  grace_window_def dict_get_def Let_def

section \<open>C2: an active session is returned as it is\<close>

text \<open>
  Claim C2, as amended: for every user who already has a session with \<open>active = true\<close> for
  assignment A, and A has IDEs enabled, \<open>InitializeSession(A, \<dots>)\<close> returns the data of
  such a session, creates no new session record and submits nothing to the orchestration
  backend: the stored state after the request is the stored state before it.
\<close>

theorem C2_active_session_returned:
  assumes "ide_enabled assignment"
    and "\<exists>s\<in>set (sessions w). owner_id s = current_user_id e
            \<and> assignment_id s = Assignment.id' assignment \<and> active s"
  shows "\<exists>s\<in>set (sessions w). owner_id s = current_user_id e
            \<and> assignment_id s = Assignment.id' assignment \<and> active s
            \<and> public_ide_initialize e assignment w =
                (Inr (success_response
                       [(''active'', PyBool True), (''session'', PyDict (data e s))]), w)"
proof -
  from assms(2) obtain s where q: "active_session_query e assignment w = Some s"
    using active_session_query_iff [of e assignment w] by auto
  from active_session_query_Some [OF q] initialize_active [OF assms(1) q]
  show ?thesis by blast
qed

theorem C2_active_session_returned_witness:
  "public_ide_initialize student_env assignment1 busy_world =
     (Inr (success_response
            [(''active'', PyBool True),
             (''session'', PyDict [(''id'', PyStr ''s1''), (''state'', PyStr ''Running'')])]),
      busy_world)"
proof -
  have enabled: "ide_enabled assignment1"
    by (simp add: assignment1_def)
  have has_active: "\<exists>s\<in>set (sessions busy_world). owner_id s = current_user_id student_env
            \<and> assignment_id s = Assignment.id' assignment1 \<and> active s"
    by (simp add: concrete_defs)
  from C2_active_session_returned [OF enabled has_active]
  show ?thesis by (simp add: concrete_defs)
qed

text \<open>
  The claim as stated, without the condition on the assignment, fails: student \<open>u1\<close> has
  the running session \<open>s1\<close> for \<open>a1\<close>, IDEs have been disabled for \<open>a1\<close>, and the
  request ends in the assertion failure of line 41 instead of returning the session.
\<close>

theorem C2_ide_disabled_counterexample:
  "active_session_query student_env (assignment1\<lparr>ide_enabled := False\<rparr>) busy_world
     = Some running_session
   \<and> active running_session
   \<and> public_ide_initialize student_env (assignment1\<lparr>ide_enabled := False\<rparr>) busy_world
     = (Inl (AssertError ''IDEs are not enabled for this assignment''), busy_world)"
  by (simp add: concrete_defs initialize_defs)

section \<open>Supporting lemmas for the gates of InitializeSession\<close>



lemma grace_window_overdue:
  assumes "microseconds (due_date assignment) + timedelta_days 21 \<le> microseconds (now e)"
  shows "grace_window e assignment =
           Some (Inr (error_response
                  ''Assignment due date passed over 3 weeks ago. IDEs are disabled.''))"
proof -
  have delta: "0 \<le> timedelta_days 21" by (simp add: timedelta_days_def)
  from assms microseconds_range [of "now e"]
  have "microseconds (due_date assignment) + timedelta_days 21 < datetime_range" by simp
  from datetime_add_in_range [OF delta this] obtain deadline where
    "datetime_add (due_date assignment) (timedelta_days 21) = Inr deadline"
    "microseconds deadline = microseconds (due_date assignment) + timedelta_days 21"
    by blast
  with assms show ?thesis by (simp add: grace_window_def)
qed


lemma grace_window_overflow:
  assumes "datetime_range \<le> microseconds (due_date assignment) + timedelta_days 21"
  shows "grace_window e assignment = Some (Inl OverflowError)"
  using datetime_add_overflow [of "due_date assignment" "timedelta_days 21"] assms
  by (simp add: grace_window_def)




lemma initialize_grace_window:
  assumes "ide_enabled assignment" and "active_session_query e assignment w = None"
    and "volume_cooldown e w = None" and "assert_theia_sessions_enabled e = None"
    and "\<not> is_course_admin e (Assignment.course_id assignment)"
    and "microseconds (release_date assignment) < microseconds (now e)"
    and "microseconds (due_date assignment) + timedelta_days 21 \<le> microseconds (now e)"
  shows "public_ide_initialize e assignment w =
           (Inr (error_response ''Assignment due date passed over 3 weeks ago. IDEs are disabled.''), w)"
  using assms(1-6) grace_window_overdue [OF assms(7)]
  by (simp add: public_ide_initialize_def req_assert_def Let_def)

lemma initialize_non_admin_overdue_world:
  assumes "\<not> is_course_admin e (Assignment.course_id assignment)"
    and "microseconds (due_date assignment) + timedelta_days 21 \<le> microseconds (now e)"
  shows "snd (public_ide_initialize e assignment w) = w"
  using assms(1) grace_window_overdue [OF assms(2)]
  by (simp add: public_ide_initialize_def req_assert_def Let_def split: option.splits)

lemma initialize_overflow:
  assumes "ide_enabled assignment" and "active_session_query e assignment w = None"
    and "volume_cooldown e w = None" and "assert_theia_sessions_enabled e = None"
    and "\<not> is_course_admin e (Assignment.course_id assignment)"
    and "microseconds (release_date assignment) < microseconds (now e)"
    and "datetime_range \<le> microseconds (due_date assignment) + timedelta_days 21"
  shows "public_ide_initialize e assignment w = (Inl OverflowError, w)"
  using assms(1-6) grace_window_overflow [OF assms(7)]
  by (simp add: public_ide_initialize_def req_assert_def Let_def)


lemmas float_evals =
  total_seconds_def true_divide_def float_quotient_def binary_exponent_def bit_length.simps
  round_half_even_def

lemma floor_numeral_quotient:
  "\<lfloor>numeral a / numeral b :: rat\<rfloor> = numeral a div numeral b"
  using floor_divide_of_int_eq [of "numeral a" "numeral b", where ?'a = rat] by simp

text \<open>
  Half a second and a second and a half are doubles; a tenth of a second is not, and is
  rounded. Just below \<open>2\<^sup>3\<^sup>5\<close> seconds the doubles are further apart than a microsecond:
  one microsecond less than \<open>2\<^sup>3\<^sup>5\<close> seconds is rounded up to \<open>2\<^sup>3\<^sup>5\<close> seconds.
\<close>

lemma total_seconds_examples:
  "total_seconds 500000 = 1 / 2"
  "total_seconds (- 1500000) = - (3 / 2)"
  "total_seconds 100000 = 3602879701896397 / 36028797018963968"
  by (simp_all add: float_evals Let_def floor_numeral_quotient)

lemma total_seconds_rounds_up:
  "total_seconds (34359738368 * 1000000 - 1) = 34359738368"
  by (simp add: float_evals Let_def floor_numeral_quotient)

text \<open>
  A student's request for an assignment due on the last two days of year 9999 that passes
  every earlier gate ends in the \<^verbatim>\<open>OverflowError\<close> of line 101.
\<close>

lemma initialize_overflow_example:
  "public_ide_initialize student_env
     (assignment1\<lparr>due_date := datetime_at (3652058 * 86400 * 1000000)\<rparr>) empty_world =
   (Inl OverflowError, empty_world)"
  by (simp add: concrete_defs initialize_defs datetime_evals)

section \<open>C1: the volume cooldown\<close>




text \<open>
  Two more inputs at which the claim as stated fails, and which the bounds of the amended
  claim exclude. With the cooldown over and every other gate passed, the request of student
  \<open>u1\<close> for an assignment due on the last two days of year 9999 raises the
  \<^verbatim>\<open>OverflowError\<close> of line 101 and creates nothing. With a cooldown of \<open>2\<^sup>3\<^sup>5\<close> seconds
  and a session that ended one microsecond less than that before the request, the float of
  line 69 is \<open>2\<^sup>3\<^sup>5\<close>, line 73 does not hold, and the request goes on to the later gates
  instead of returning the warning.
\<close>

lemma cooldown_elapsed_overflow_example:
  "public_ide_initialize (student_env\<lparr>now := datetime_at 5000001000000\<rparr>)
     (assignment1\<lparr>due_date := datetime_at (3652058 * 86400 * 1000000)\<rparr>) cooling_world =
   (Inl OverflowError, cooling_world)"
  by (simp add: concrete_defs initialize_defs datetime_evals float_evals)

lemma cooldown_rounding_example:
  "datetime_sub (datetime_at (4999999500000 + 34359738368 * 1000000 - 1))
       (datetime_at 4999999500000) < 34359738368 * 1000000
   \<and> public_ide_initialize
       (student_env\<lparr>now := datetime_at (4999999500000 + 34359738368 * 1000000 - 1),
                    get_config_int := (\<lambda>key dflt. 34359738368)\<rparr>)
       assignment1 cooling_world =
     (Inr (error_response ''Assignment due date passed over 3 weeks ago. IDEs are disabled.''),
      cooling_world)"
  by (simp add: concrete_defs initialize_defs datetime_evals float_evals floor_numeral_quotient)

section \<open>C3: the grace window after the due date\<close>

text \<open>
  Claim C3, as amended: for every caller who is not a course admin, on an assignment whose
  due date plus 21 days is at or before the current time, \<open>InitializeSession\<close> leaves
  the stored state as it is, so that no session is created; and when the request passes the
  gates before the check (IDEs enabled for the assignment, no active session of the caller
  for it, no cooldown pending, new sessions enabled, release date in the past), it returns
  the error response of line 102 with its message instead of raising an assertion failure.
\<close>

theorem C3_grace_window_decline:
  assumes "\<not> is_course_admin e (Assignment.course_id assignment)"
    and "microseconds (due_date assignment) + timedelta_days 21 \<le> microseconds (now e)"
  shows "snd (public_ide_initialize e assignment w) = w
       \<and> (ide_enabled assignment
          \<and> active_session_query e assignment w = None
          \<and> volume_cooldown e w = None
          \<and> assert_theia_sessions_enabled e = None
          \<and> microseconds (release_date assignment) < microseconds (now e) \<longrightarrow>
          fst (public_ide_initialize e assignment w) =
            Inr (error_response
                  ''Assignment due date passed over 3 weeks ago. IDEs are disabled.''))"
  using initialize_non_admin_overdue_world [OF assms]
    initialize_grace_window [of assignment e w] assms
  by simp

theorem C3_grace_window_decline_witness:
  "public_ide_initialize student_env overdue_assignment empty_world =
     (Inr (error_response ''Assignment due date passed over 3 weeks ago. IDEs are disabled.''),
      empty_world)"
proof -
  have student: "\<not> is_course_admin student_env (Assignment.course_id overdue_assignment)"
    by (simp add: concrete_defs)
  have overdue: "microseconds (due_date overdue_assignment) + timedelta_days 21
      \<le> microseconds (now student_env)"
    by (simp add: concrete_defs datetime_evals)
  have gates: "ide_enabled overdue_assignment
      \<and> active_session_query student_env overdue_assignment empty_world = None
      \<and> volume_cooldown student_env empty_world = None
      \<and> assert_theia_sessions_enabled student_env = None
      \<and> microseconds (release_date overdue_assignment) < microseconds (now student_env)"
    by (simp add: concrete_defs datetime_evals active_session_query_def volume_cooldown_def
          last_session_query_def)
  from C3_grace_window_decline [OF student overdue, of empty_world] gates
  show ?thesis
    by (simp add: prod_eq_iff)
qed

text \<open>
  The claim as stated, for every such request, fails: on the overdue assignment with IDEs
  disabled, the request of student \<open>u1\<close> ends in the assertion failure of line 41.
\<close>

theorem C3_ide_disabled_counterexample:
  "\<not> is_course_admin student_env (Assignment.course_id (overdue_assignment\<lparr>ide_enabled := False\<rparr>))
   \<and> microseconds (due_date (overdue_assignment\<lparr>ide_enabled := False\<rparr>)) + timedelta_days 21
       \<le> microseconds (now student_env)
   \<and> public_ide_initialize student_env (overdue_assignment\<lparr>ide_enabled := False\<rparr>) empty_world =
       (Inl (AssertError ''IDEs are not enabled for this assignment''), empty_world)"
  by (simp add: concrete_defs initialize_defs datetime_evals)

section \<open>C8: course admins\<close>

text \<open>
  Claim C8: for every course-admin caller of \<open>InitializeSession\<close>, the release-date and
  due-date-grace-window checks are skipped, that is, the outcome of the request is the same
  for every release date and every due date of the assignment; and the network policy of the
  session that the request creates is \<open>"admin"\<close>, whatever \<open>network_policy\<close> the options
  of the assignment configure.
\<close>

theorem C8_admin_bypass:
  assumes "is_course_admin e (Assignment.course_id assignment)"
  shows "public_ide_initialize e (assignment\<lparr>release_date := r, due_date := d\<rparr>) w =
           public_ide_initialize e assignment w
       \<and> (sessions (snd (public_ide_initialize e assignment w)) = sessions w @ [s] \<longrightarrow>
            network_policy s = PyStr ''admin'')"
  using initialize_admin_dates [OF assms] initialize_created [of e assignment w s] assms
  by simp

theorem C8_admin_bypass_witness:
  "public_ide_initialize admin_env
      (assignment1\<lparr>release_date := datetime_at 6000000000000, due_date := datetime_at 1000000000000\<rparr>) empty_world =
     public_ide_initialize admin_env assignment1 empty_world
   \<and> sessions (snd (public_ide_initialize admin_env assignment1 empty_world)) =
       sessions empty_world @
         [running_session\<lparr>id' := ''s9'', owner_id := ''ta'', network_locked := False,
            network_policy := PyStr ''admin'', admin := True, credentials := True,
            state := ''Initializing'', created := datetime_at 5000000000000\<rparr>]
   \<and> dict_get (theia_options assignment1) ''network_policy'' (PyStr ''os-student'')
       = PyStr ''os-student''
   \<and> network_policy
        (running_session\<lparr>id' := ''s9'', owner_id := ''ta'', network_locked := False,
            network_policy := PyStr ''admin'', admin := True, credentials := True,
            state := ''Initializing'', created := datetime_at 5000000000000\<rparr>) = PyStr ''admin''"
proof -
  let ?s = "running_session\<lparr>id' := ''s9'', owner_id := ''ta'', network_locked := False,
            network_policy := PyStr ''admin'', admin := True, credentials := True,
            state := ''Initializing'', created := datetime_at 5000000000000\<rparr>"
  have is_admin: "is_course_admin admin_env (Assignment.course_id assignment1)"
    by (simp add: concrete_defs)
  have created: "sessions (snd (public_ide_initialize admin_env assignment1 empty_world)) =
       sessions empty_world @ [?s]"
    by (simp add: concrete_defs initialize_defs datetime_evals)
  from C8_admin_bypass [OF is_admin, where r = "datetime_at 6000000000000"
      and d = "datetime_at 1000000000000"
      and w = empty_world and s = ?s] created
  show ?thesis
    by (simp add: assignment1_def dict_get_def)
qed

section \<open>C9: the query parameters\<close>

text \<open>
  Claim C9: in \<open>InitializeSession\<close>, the \<open>autosave\<close> and \<open>persistent_storage\<close> options of
  the session that is created are each true exactly when the corresponding query parameter
  is absent or equals the exact lowercase string \<open>"true"\<close>; any other string value, such as
  \<open>"True"\<close>, \<open>"1"\<close> or \<open>"yes"\<close>, yields false.
\<close>

theorem C9_query_flags:
  assumes "sessions (snd (public_ide_initialize e assignment w)) = sessions w @ [s]"
  shows "autosave s = (map_of (request_args e) ''autosave'' = None
                        \<or> map_of (request_args e) ''autosave'' = Some ''true'')
       \<and> persistent_storage s = (map_of (request_args e) ''persistent_storage'' = None
                        \<or> map_of (request_args e) ''persistent_storage'' = Some ''true'')"
  using initialize_created [OF assms]
  by (auto simp: dict_get_def split: option.splits)

theorem C9_query_flags_witness:
  "sessions (snd (public_ide_initialize
       (student_env\<lparr>request_args := [(''autosave'', ''True'')]\<rparr>) assignment1 empty_world)) =
     sessions empty_world @
       [running_session\<lparr>id' := ''s9'', state := ''Initializing'', created := datetime_at 5000000000000,
          autosave := False\<rparr>]
   \<and> \<not> autosave (running_session\<lparr>id' := ''s9'', state := ''Initializing'',
          created := datetime_at 5000000000000, autosave := False\<rparr>)
   \<and> persistent_storage (running_session\<lparr>id' := ''s9'', state := ''Initializing'',
          created := datetime_at 5000000000000, autosave := False\<rparr>)"
proof -
  let ?e = "student_env\<lparr>request_args := [(''autosave'', ''True'')]\<rparr>"
  let ?s = "running_session\<lparr>id' := ''s9'', state := ''Initializing'', created := datetime_at 5000000000000,
          autosave := False\<rparr>"
  have created: "sessions (snd (public_ide_initialize ?e assignment1 empty_world)) =
       sessions empty_world @ [?s]"
    by (simp add: concrete_defs initialize_defs datetime_evals)
  from C9_query_flags [OF created] created
  show ?thesis
    by (simp add: running_session_def)
qed

section \<open>Supporting lemmas for StopSession and PollSession\<close>

lemma find_update_first:
  assumes "find P xs = Some x" and "P (f x)"
  shows "find P (update_first P f xs) = Some (f x)"
  using assms by (induction xs) (auto split: if_splits)

lemma update_first_decomp:
  assumes "find P xs = Some x"
  shows "\<exists>ys zs. xs = ys @ x # zs \<and> (\<forall>y\<in>set ys. \<not> P y)
           \<and> update_first P f xs = ys @ f x # zs"
  using assms
proof (induction xs)
  case Nil
  then show ?case by simp
next
  case (Cons a xs)
  show ?case
  proof (cases "P a")
    case True
    with Cons.prems have "a = x" by simp
    with True have "a # xs = [] @ x # xs \<and> (\<forall>y\<in>set []. \<not> P y)
        \<and> update_first P f (a # xs) = [] @ f x # xs"
      by simp
    then show ?thesis by blast
  next
    case False
    with Cons.prems have "find P xs = Some x" by simp
    from Cons.IH [OF this] obtain ys zs where
      "xs = ys @ x # zs" "\<forall>y\<in>set ys. \<not> P y" "update_first P f xs = ys @ f x # zs"
      by blast
    with False have "a # xs = (a # ys) @ x # zs \<and> (\<forall>y\<in>set (a # ys). \<not> P y)
        \<and> update_first P f (a # xs) = (a # ys) @ f x # zs"
      by simp
    then show ?thesis by blast
  qed
qed

lemma session_query_Some:
  assumes "session_query e sid w = Some s"
  shows "s \<in> set (sessions w) \<and> id' s = sid \<and> owner_id s = current_user_id e"
  using assms by (auto simp: session_query_def find_Some_iff)

lemma session_query_None_iff:
  "(session_query e sid w = None) =
     (\<forall>s\<in>set (sessions w). id' s = sid \<longrightarrow> owner_id s \<noteq> current_user_id e)"
  by (auto simp: session_query_def find_None_iff)

lemma stop_not_found:
  assumes "session_query e sid w = None"
  shows "public_ide_stop e sid w = (Inl (AssertError ''session does not exist''), w)"
  using assms by (simp add: public_ide_stop_def req_assert_def)

lemma stop_found:
  assumes "session_query e sid w = Some s"
  shows "public_ide_stop e sid w =
    (Inr (success_response [(''status'', PyStr ''Session stopped.''), (''variant'', PyStr ''warning'')]),
     w\<lparr>sessions := update_first (\<lambda>s. id' s = sid \<and> owner_id s = current_user_id e)
                       (\<lambda>s. s\<lparr>active := False, ended := Some (now e), state := ''Ended''\<rparr>)
                       (sessions w),
       ide_stop_queue := ide_stop_queue w @ [sid],
       poll_cache := filter (\<lambda>entry. fst entry \<noteq> (sid, current_user_id e)) (poll_cache w)\<rparr>)"
  using assms session_query_Some [OF assms]
  by (simp add: public_ide_stop_def req_assert_def enqueue_ide_stop_def
        cache_delete_memoized_def cache_invalidate_def Let_def)

lemma map_of_filter_key:
  "map_of (filter (\<lambda>entry. fst entry \<noteq> k) xs) k = None"
  by (induction xs) auto

lemma poll_miss:
  assumes "map_of (poll_cache w) (sid, uid) = None"
  shows "fst (theia_poll_ide e sid uid w) = poll_backend e w sid uid
       \<and> poll_queries (snd (theia_poll_ide e sid uid w)) = poll_queries w @ [(sid, uid)]"
  using assms
  by (simp add: theia_poll_ide_def cache_get_def cache_set_with_ttl_def Let_def)

lemma poll_hit:
  assumes "map_of (poll_cache w) (sid, uid) = Some (v, expiry)" and "microseconds (now e) < expiry"
  shows "theia_poll_ide e sid uid w = (v, w)"
  using assms by (simp add: theia_poll_ide_def cache_get_def)

lemma public_ide_poll_world:
  "snd (public_ide_poll e sid w) = snd (theia_poll_ide e sid (current_user_id e) w)"
  by (simp add: public_ide_poll_def Let_def split: prod.splits option.splits)

lemma public_ide_poll_phase:
  assumes "fst (theia_poll_ide e sid (current_user_id e) w) = Some session_data"
    and "map_of session_data ''state'' = Some (PyStr phase)"
  shows "fst (public_ide_poll e sid w) =
     Inr (success_response
       [(''loading'', PyBool (phase \<notin> {''Running'', ''Ended'', ''Failed''})),
        (''session'', PyDict session_data),
        (''status'', if phase = ''Running'' then PyStr ''Session is now ready.''
                     else if phase = ''Failed''
                          then PyStr ''Session failed to start. Please try again.''
                          else PyNone),
        (''variant'', if phase = ''Running'' then PyStr ''success''
                      else if phase = ''Failed'' then PyStr ''error'' else PyNone)])"
  using assms
  by (auto simp: public_ide_poll_def req_assert_def dict_get_def Let_def split: prod.splits)


lemmas stop_poll_defs =
  public_ide_stop_def public_ide_poll_def theia_poll_ide_def session_query_def req_assert_def
  enqueue_ide_stop_def cache_delete_memoized_def cache_invalidate_def cache_get_def
  cache_set_with_ttl_def dict_get_def Let_def

section \<open>C4: the phase of a polled session\<close>

text \<open>
  Claim C4: for every session id, when the poll gives session data whose state is the phase
  \<open>phase\<close>, \<open>PollSession\<close> sets \<open>loading = true\<close> exactly when the phase is none of
  Running, Ended and Failed; it maps Running to the success-variant status message and Failed
  to the error-variant status message, both with \<open>loading = false\<close>, and every other phase,
  Ended among them, to no status message: status and variant are null.
\<close>

theorem C4_poll_phase_mapping:
  assumes "fst (theia_poll_ide e sid (current_user_id e) w) = Some session_data"
    and "map_of session_data ''state'' = Some (PyStr phase)"
  shows "fst (public_ide_poll e sid w) =
     Inr (success_response
       [(''loading'', PyBool (phase \<notin> {''Running'', ''Ended'', ''Failed''})),
        (''session'', PyDict session_data),
        (''status'', if phase = ''Running'' then PyStr ''Session is now ready.''
                     else if phase = ''Failed''
                          then PyStr ''Session failed to start. Please try again.''
                          else PyNone),
        (''variant'', if phase = ''Running'' then PyStr ''success''
                      else if phase = ''Failed'' then PyStr ''error'' else PyNone)])"
  using public_ide_poll_phase [OF assms] .

theorem C4_poll_phase_mapping_witness:
  "fst (public_ide_poll student_env ''s1'' busy_world) =
     Inr (success_response
       [(''loading'', PyBool False),
        (''session'', PyDict [(''id'', PyStr ''s1''), (''state'', PyStr ''Running'')]),
        (''status'', PyStr ''Session is now ready.''),
        (''variant'', PyStr ''success'')])
   \<and> fst (public_ide_poll student_env ''s0'' busy_world) =
     Inr (success_response
       [(''loading'', PyBool False),
        (''session'', PyDict [(''id'', PyStr ''s0''), (''state'', PyStr ''Ended'')]),
        (''status'', PyNone),
        (''variant'', PyNone)])"
proof -
  have polled1: "fst (theia_poll_ide student_env ''s1'' (current_user_id student_env) busy_world)
      = Some [(''id'', PyStr ''s1''), (''state'', PyStr ''Running'')]"
    by (simp add: concrete_defs stop_poll_defs datetime_evals)
  have polled0: "fst (theia_poll_ide student_env ''s0'' (current_user_id student_env) busy_world)
      = Some [(''id'', PyStr ''s0''), (''state'', PyStr ''Ended'')]"
    by (simp add: concrete_defs stop_poll_defs datetime_evals)
  have phase1: "map_of [(''id'', PyStr ''s1''), (''state'', PyStr ''Running'')] ''state''
      = Some (PyStr ''Running'')"
    by simp
  have phase0: "map_of [(''id'', PyStr ''s0''), (''state'', PyStr ''Ended'')] ''state''
      = Some (PyStr ''Ended'')"
    by simp
  from C4_poll_phase_mapping [OF polled1 phase1] C4_poll_phase_mapping [OF polled0 phase0]
  show ?thesis by simp
qed

section \<open>C6: stopping a session that is not the caller's\<close>

text \<open>
  Claim C6: for every session id and calling user, if no session with that id exists (world
  \<open>w1\<close>) or the sessions with that id are owned by other users (world \<open>w2\<close>),
  \<open>StopSession\<close> fails with the same not-found assertion failure in both cases and leaves
  the stored state as it is; the response does not tell the two cases apart.
\<close>

theorem C6_stop_not_found:
  assumes "\<forall>s\<in>set (sessions w1). id' s \<noteq> sid"
    and "\<exists>s\<in>set (sessions w2). id' s = sid"
    and "\<forall>s\<in>set (sessions w2). id' s = sid \<longrightarrow> owner_id s \<noteq> current_user_id e"
  shows "public_ide_stop e sid w1 = (Inl (AssertError ''session does not exist''), w1)
       \<and> public_ide_stop e sid w2 = (Inl (AssertError ''session does not exist''), w2)
       \<and> fst (public_ide_stop e sid w1) = fst (public_ide_stop e sid w2)"
proof -
  from assms(1) have "session_query e sid w1 = None"
    by (simp add: session_query_None_iff)
  moreover from assms(3) have "session_query e sid w2 = None"
    by (simp add: session_query_None_iff)
  ultimately show ?thesis
    by (simp add: stop_not_found)
qed

theorem C6_stop_not_found_witness:
  "public_ide_stop admin_env ''s1'' empty_world =
     (Inl (AssertError ''session does not exist''), empty_world)
   \<and> public_ide_stop admin_env ''s1'' busy_world =
     (Inl (AssertError ''session does not exist''), busy_world)"
proof -
  have absent: "\<forall>s\<in>set (sessions empty_world). id' s \<noteq> ''s1''"
    by (simp add: concrete_defs)
  have present: "\<exists>s\<in>set (sessions busy_world). id' s = ''s1''"
    by (simp add: concrete_defs)
  have foreign: "\<forall>s\<in>set (sessions busy_world).
      id' s = ''s1'' \<longrightarrow> owner_id s \<noteq> current_user_id admin_env"
    by (simp add: concrete_defs)
  from C6_stop_not_found [OF absent present foreign]
  show ?thesis by simp
qed

section \<open>C5: stopping a session\<close>

text \<open>
  Claim C5: for every session owned by the calling user, \<open>StopSession\<close> sets
  \<open>active = false\<close>, \<open>ended\<close> to the call time and \<open>state = "Ended"\<close> in the row that
  the lookup found and persists it with every other row unchanged, enqueues the stop job, and
  invalidates the poll-cache entry keyed on \<open>(session_id, user_id)\<close>; the next
  \<open>PollSession\<close> call of that user for the session, at whatever time \<open>e'\<close> reads, gets
  what the backend answers then and not a cached result, and its query is logged.
\<close>

theorem C5_stop_session:
  assumes "session_query e sid w = Some s"
    and "current_user_id e' = current_user_id e"
  shows "fst (public_ide_stop e sid w) =
           Inr (success_response
                 [(''status'', PyStr ''Session stopped.''), (''variant'', PyStr ''warning'')])
       \<and> (\<exists>ys zs. sessions w = ys @ s # zs
              \<and> (\<forall>y\<in>set ys. \<not> (id' y = sid \<and> owner_id y = current_user_id e))
              \<and> sessions (snd (public_ide_stop e sid w)) =
                  ys @ s\<lparr>active := False, ended := Some (now e), state := ''Ended''\<rparr> # zs)
       \<and> ide_stop_queue (snd (public_ide_stop e sid w)) = ide_stop_queue w @ [id' s]
       \<and> map_of (poll_cache (snd (public_ide_stop e sid w))) (sid, current_user_id e) = None
       \<and> fst (theia_poll_ide e' sid (current_user_id e') (snd (public_ide_stop e sid w))) =
           poll_backend e' (snd (public_ide_stop e sid w)) sid (current_user_id e')
       \<and> poll_queries (snd (public_ide_poll e' sid (snd (public_ide_stop e sid w)))) =
           poll_queries w @ [(sid, current_user_id e')]"
proof -
  let ?P = "\<lambda>s. id' s = sid \<and> owner_id s = current_user_id e"
  let ?f = "\<lambda>s. s\<lparr>active := False, ended := Some (now e), state := ''Ended''\<rparr>"
  let ?w = "snd (public_ide_stop e sid w)"
  note stopped = stop_found [OF assms(1)]
  from assms(1) have found: "find ?P (sessions w) = Some s"
    by (simp add: session_query_def)
  have response: "fst (public_ide_stop e sid w) =
           Inr (success_response
                 [(''status'', PyStr ''Session stopped.''), (''variant'', PyStr ''warning'')])"
    by (simp add: stopped)
  have table: "sessions ?w = update_first ?P ?f (sessions w)"
    by (simp add: stopped)
  from update_first_decomp [OF found, of ?f]
  have rows: "\<exists>ys zs. sessions w = ys @ s # zs
              \<and> (\<forall>y\<in>set ys. \<not> (id' y = sid \<and> owner_id y = current_user_id e))
              \<and> sessions ?w = ys @ ?f s # zs"
    unfolding table by simp
  have queue: "ide_stop_queue ?w = ide_stop_queue w @ [id' s]"
    using session_query_Some [OF assms(1)] by (simp add: stopped)
  have dropped: "map_of (poll_cache ?w) (sid, current_user_id e) = None"
    by (simp add: stopped map_of_filter_key)
  have queries: "poll_queries ?w = poll_queries w"
    by (simp add: stopped)
  from dropped assms(2) have miss: "map_of (poll_cache ?w) (sid, current_user_id e') = None"
    by simp
  note fresh = poll_miss [OF miss, of e']
  from fresh have fetched: "fst (theia_poll_ide e' sid (current_user_id e') ?w) =
           poll_backend e' ?w sid (current_user_id e')"
    by simp
  from fresh queries have asked: "poll_queries (snd (public_ide_poll e' sid ?w)) =
           poll_queries w @ [(sid, current_user_id e')]"
    by (simp add: public_ide_poll_world)
  from response rows queue dropped fetched asked show ?thesis
    by blast
qed

theorem C5_stop_session_witness:
  "fst (public_ide_poll (student_env\<lparr>now := datetime_at 5000000100000\<rparr>) ''s1'' cached_world) =
       Inr (success_response
         [(''loading'', PyBool False),
          (''session'', PyDict [(''id'', PyStr ''s1''), (''state'', PyStr ''Running'')]),
          (''status'', PyStr ''Session is now ready.''),
          (''variant'', PyStr ''success'')])
   \<and> poll_queries (snd (public_ide_poll (student_env\<lparr>now := datetime_at 5000000100000\<rparr>) ''s1''
         cached_world)) = []
   \<and> fst (public_ide_stop student_env ''s1'' cached_world) =
       Inr (success_response
             [(''status'', PyStr ''Session stopped.''), (''variant'', PyStr ''warning'')])
   \<and> sessions (snd (public_ide_stop student_env ''s1'' cached_world)) =
       [stopped_session,
        running_session\<lparr>active := False, ended := Some (datetime_at 5000000000000), state := ''Ended''\<rparr>]
   \<and> ide_stop_queue (snd (public_ide_stop student_env ''s1'' cached_world)) = [''s1'']
   \<and> poll_cache (snd (public_ide_stop student_env ''s1'' cached_world)) = []
   \<and> fst (public_ide_poll (student_env\<lparr>now := datetime_at 5000000100000\<rparr>) ''s1''
         (snd (public_ide_stop student_env ''s1'' cached_world))) =
       Inr (success_response
         [(''loading'', PyBool False),
          (''session'', PyDict [(''id'', PyStr ''s1''), (''state'', PyStr ''Ended'')]),
          (''status'', PyNone),
          (''variant'', PyNone)])
   \<and> poll_queries (snd (public_ide_poll (student_env\<lparr>now := datetime_at 5000000100000\<rparr>) ''s1''
         (snd (public_ide_stop student_env ''s1'' cached_world)))) = [(''s1'', ''u1'')]"
proof -
  let ?next = "student_env\<lparr>now := datetime_at 5000000100000\<rparr>"
  have found: "session_query student_env ''s1'' cached_world = Some running_session"
    by (simp add: concrete_defs cached_world_def session_query_def)
  have same_user: "current_user_id ?next = current_user_id student_env"
    by simp
  have before: "public_ide_poll ?next ''s1'' cached_world =
      (Inr (success_response
         [(''loading'', PyBool False),
          (''session'', PyDict [(''id'', PyStr ''s1''), (''state'', PyStr ''Running'')]),
          (''status'', PyStr ''Session is now ready.''),
          (''variant'', PyStr ''success'')]), cached_world)"
    by (simp add: concrete_defs cached_world_def stop_poll_defs datetime_evals)
  have stopped: "public_ide_stop student_env ''s1'' cached_world =
      (Inr (success_response
             [(''status'', PyStr ''Session stopped.''), (''variant'', PyStr ''warning'')]),
       cached_world\<lparr>sessions := [stopped_session,
           running_session\<lparr>active := False, ended := Some (datetime_at 5000000000000), state := ''Ended''\<rparr>],
         ide_stop_queue := [''s1''], poll_cache := []\<rparr>)"
    by (simp add: concrete_defs cached_world_def stop_poll_defs datetime_evals)
  have after: "fst (public_ide_poll ?next ''s1''
      (cached_world\<lparr>sessions := [stopped_session,
           running_session\<lparr>active := False, ended := Some (datetime_at 5000000000000), state := ''Ended''\<rparr>],
         ide_stop_queue := [''s1''], poll_cache := []\<rparr>)) =
       Inr (success_response
         [(''loading'', PyBool False),
          (''session'', PyDict [(''id'', PyStr ''s1''), (''state'', PyStr ''Ended'')]),
          (''status'', PyNone),
          (''variant'', PyNone)])"
    by (simp add: concrete_defs cached_world_def stop_poll_defs datetime_evals)
  have no_queries: "poll_queries cached_world = []"
    by (simp add: concrete_defs cached_world_def)
  from C5_stop_session [OF found same_user]
  have "poll_queries (snd (public_ide_poll ?next ''s1''
          (snd (public_ide_stop student_env ''s1'' cached_world)))) =
        poll_queries cached_world @ [(''s1'', current_user_id ?next)]"
    by blast
  then have asked: "poll_queries (snd (public_ide_poll ?next ''s1''
          (snd (public_ide_stop student_env ''s1'' cached_world)))) = [(''s1'', ''u1'')]"
    by (simp add: no_queries student_env_def)
  have cached: "poll_queries (snd (public_ide_poll ?next ''s1'' cached_world)) = []"
    by (simp add: before no_queries)
  have fresh: "fst (public_ide_poll ?next ''s1''
         (snd (public_ide_stop student_env ''s1'' cached_world))) =
       Inr (success_response
         [(''loading'', PyBool False),
          (''session'', PyDict [(''id'', PyStr ''s1''), (''state'', PyStr ''Ended'')]),
          (''status'', PyNone),
          (''variant'', PyNone)])"
    using after by (simp add: stopped)
  have c1: "fst (public_ide_poll ?next ''s1'' cached_world) =
       Inr (success_response
         [(''loading'', PyBool False),
          (''session'', PyDict [(''id'', PyStr ''s1''), (''state'', PyStr ''Running'')]),
          (''status'', PyStr ''Session is now ready.''),
          (''variant'', PyStr ''success'')])"
    by (simp add: before)
  have c3: "fst (public_ide_stop student_env ''s1'' cached_world) =
       Inr (success_response
             [(''status'', PyStr ''Session stopped.''), (''variant'', PyStr ''warning'')])"
    by (simp add: stopped)
  have c4: "sessions (snd (public_ide_stop student_env ''s1'' cached_world)) =
       [stopped_session,
        running_session\<lparr>active := False, ended := Some (datetime_at 5000000000000), state := ''Ended''\<rparr>]"
    by (simp add: stopped)
  have c5: "ide_stop_queue (snd (public_ide_stop student_env ''s1'' cached_world)) = [''s1'']"
    by (simp add: stopped)
  have c6: "poll_cache (snd (public_ide_stop student_env ''s1'' cached_world)) = []"
    by (simp add: stopped)
  from c1 cached c3 c4 c5 c6 fresh asked show ?thesis
    by blast
qed


section \<open>C7: stopping a session twice\<close>

lemma session_query_unique:
  assumes "s \<in> set (sessions w)" and "id' s = sid" and "owner_id s = current_user_id e"
    and "distinct (map id' (sessions w))"
  shows "session_query e sid w = Some s"
proof -
  from assms(1-3) have "session_query e sid w \<noteq> None"
    by (auto simp: session_query_None_iff)
  then obtain s' where found: "session_query e sid w = Some s'" by blast
  from session_query_Some [OF found] have s': "s' \<in> set (sessions w)" "id' s' = sid" by simp_all
  from assms(4) have "inj_on id' (set (sessions w))" by (simp add: distinct_map)
  with s' assms(1,2) have "s' = s" by (auto dest: inj_onD)
  with found show ?thesis by simp
qed

text \<open>
  Claim C7: for every session in the session table that is owned by the calling user and
  already marked \<open>active = false\<close>, a further \<open>StopSession\<close> call with its id still
  succeeds, since the lookup is scoped to the owner and not to active sessions; in the table
  after the call that row has \<open>ended\<close> set to the time of the new call and again
  \<open>state = "Ended"\<close> and \<open>active = false\<close>, and every other row is as before. The id is
  the primary key of the table: no two rows share one.
\<close>

theorem C7_double_stop:
  assumes "s \<in> set (sessions w)"
    and "id' s = sid"
    and "owner_id s = current_user_id e"
    and "\<not> active s"
    and "distinct (map id' (sessions w))"
  shows "fst (public_ide_stop e sid w) =
           Inr (success_response
                 [(''status'', PyStr ''Session stopped.''), (''variant'', PyStr ''warning'')])
       \<and> (\<exists>ys zs. sessions w = ys @ s # zs
              \<and> sessions (snd (public_ide_stop e sid w)) =
                  ys @ s\<lparr>active := False, ended := Some (now e), state := ''Ended''\<rparr> # zs)"
proof -
  let ?P = "\<lambda>s. id' s = sid \<and> owner_id s = current_user_id e"
  let ?f = "\<lambda>s. s\<lparr>active := False, ended := Some (now e), state := ''Ended''\<rparr>"
  from session_query_unique [OF assms(1-3,5)] have query: "session_query e sid w = Some s" .
  then have found: "find ?P (sessions w) = Some s"
    by (simp add: session_query_def)
  note stopped = stop_found [OF query]
  have table: "sessions (snd (public_ide_stop e sid w)) = update_first ?P ?f (sessions w)"
    by (simp add: stopped)
  from update_first_decomp [OF found, of ?f]
  have "\<exists>ys zs. sessions w = ys @ s # zs
          \<and> sessions (snd (public_ide_stop e sid w)) = ys @ ?f s # zs"
    unfolding table by blast
  then show ?thesis
    by (simp add: stopped)
qed

theorem C7_double_stop_witness:
  "ended stopped_session = Some (datetime_at 4999999500000)
   \<and> sessions busy_world = [stopped_session, running_session]
   \<and> fst (public_ide_stop student_env ''s0'' busy_world) =
       Inr (success_response
             [(''status'', PyStr ''Session stopped.''), (''variant'', PyStr ''warning'')])
   \<and> sessions (snd (public_ide_stop student_env ''s0'' busy_world)) =
       [stopped_session\<lparr>ended := Some (datetime_at 5000000000000)\<rparr>, running_session]"
proof -
  have row: "stopped_session \<in> set (sessions busy_world)"
    by (simp add: busy_world_def empty_world_def)
  have key: "id' stopped_session = ''s0''"
    by (simp add: concrete_defs)
  have owner: "owner_id stopped_session = current_user_id student_env"
    by (simp add: concrete_defs)
  have inactive: "\<not> active stopped_session"
    by (simp add: concrete_defs)
  have keys: "distinct (map id' (sessions busy_world))"
    by (simp add: concrete_defs)
  have table: "sessions busy_world = [stopped_session, running_session]"
    by (simp add: busy_world_def empty_world_def)
  have before: "ended stopped_session = Some (datetime_at 4999999500000)"
    by (simp add: concrete_defs)
  from C7_double_stop [OF row key owner inactive keys]
  have response: "fst (public_ide_stop student_env ''s0'' busy_world) =
       Inr (success_response
             [(''status'', PyStr ''Session stopped.''), (''variant'', PyStr ''warning'')])"
    and "\<exists>ys zs. sessions busy_world = ys @ stopped_session # zs
          \<and> sessions (snd (public_ide_stop student_env ''s0'' busy_world)) =
              ys @ stopped_session\<lparr>active := False, ended := Some (now student_env),
                     state := ''Ended''\<rparr> # zs"
    by blast+
  then obtain ys zs where split: "sessions busy_world = ys @ stopped_session # zs"
    and after: "sessions (snd (public_ide_stop student_env ''s0'' busy_world)) =
              ys @ stopped_session\<lparr>active := False, ended := Some (now student_env),
                     state := ''Ended''\<rparr> # zs"
    by blast
  have differ: "running_session \<noteq> stopped_session"
    by (simp add: concrete_defs)
  from split table differ have "ys = [] \<and> zs = [running_session]"
    by (auto simp: Cons_eq_append_conv append_eq_Cons_conv)
  with after have "sessions (snd (public_ide_stop student_env ''s0'' busy_world)) =
       [stopped_session\<lparr>ended := Some (datetime_at 5000000000000)\<rparr>, running_session]"
    by (simp add: concrete_defs)
  with before table response show ?thesis
    by blast
qed

end
